theory Spec2Isabelle
  imports Main "HOL-Library.Sublist"
begin

section \<open>Types (src/src/types.ts)\<close>

text \<open>
  \<^verbatim>\<open>export enum ErrorCode { TIMEOUT = 'TIMEOUT', ... }\<close> is a string enum with twenty
  members. In the type system it is a closed enumeration, which is the datatype below.
\<close>

datatype ErrorCode =
    TIMEOUT | CONNECTION_ERROR | DNS_ERROR
  | AUTHENTICATION_ERROR | INVALID_API_KEY | PERMISSION_DENIED
  | RATE_LIMIT | QUOTA_EXCEEDED
  | MODEL_NOT_FOUND | MODEL_OVERLOADED | CONTEXT_LENGTH_EXCEEDED
  | INVALID_RESPONSE | PARSE_ERROR | EMPTY_RESPONSE
  | QUALITY_THRESHOLD_NOT_MET | LATENCY_TOO_HIGH
  | INTERNAL_ERROR | SERVICE_UNAVAILABLE | UNKNOWN_ERROR
  | CUSTOM_ERROR

text \<open>
  At run time every member of a string enum \<^emph>\<open>is\<close> its initialiser: the value of
  \<^verbatim>\<open>ErrorCode.DNS_ERROR\<close> is the primitive string \<^verbatim>\<open>'DNS_ERROR'\<close>, and
  \<^verbatim>\<open>typeof ErrorCode.DNS_ERROR === 'string'\<close>. \<open>code_string\<close> gives that value.
\<close>

fun code_string :: "ErrorCode \<Rightarrow> string" where
  "code_string TIMEOUT = ''TIMEOUT''"
| "code_string CONNECTION_ERROR = ''CONNECTION_ERROR''"
| "code_string DNS_ERROR = ''DNS_ERROR''"
| "code_string AUTHENTICATION_ERROR = ''AUTHENTICATION_ERROR''"
| "code_string INVALID_API_KEY = ''INVALID_API_KEY''"
| "code_string PERMISSION_DENIED = ''PERMISSION_DENIED''"
| "code_string RATE_LIMIT = ''RATE_LIMIT''"
| "code_string QUOTA_EXCEEDED = ''QUOTA_EXCEEDED''"
| "code_string MODEL_NOT_FOUND = ''MODEL_NOT_FOUND''"
| "code_string MODEL_OVERLOADED = ''MODEL_OVERLOADED''"
| "code_string CONTEXT_LENGTH_EXCEEDED = ''CONTEXT_LENGTH_EXCEEDED''"
| "code_string INVALID_RESPONSE = ''INVALID_RESPONSE''"
| "code_string PARSE_ERROR = ''PARSE_ERROR''"
| "code_string EMPTY_RESPONSE = ''EMPTY_RESPONSE''"
| "code_string QUALITY_THRESHOLD_NOT_MET = ''QUALITY_THRESHOLD_NOT_MET''"
| "code_string LATENCY_TOO_HIGH = ''LATENCY_TOO_HIGH''"
| "code_string INTERNAL_ERROR = ''INTERNAL_ERROR''"
| "code_string SERVICE_UNAVAILABLE = ''SERVICE_UNAVAILABLE''"
| "code_string UNKNOWN_ERROR = ''UNKNOWN_ERROR''"
| "code_string CUSTOM_ERROR = ''CUSTOM_ERROR''"

text \<open>The union type \<^verbatim>\<open>ErrorClassification\<close> of eight string literals.\<close>

datatype ErrorClassification =
  timeout | rate_limit | authentication | model | quality | network | system | unknown

text \<open>
  \<^verbatim>\<open>interface ClassifiedError\<close>, the value \<^verbatim>\<open>classify\<close> returns.
\<close>

record ClassifiedError =
  code :: ErrorCode
  classification :: ErrorClassification
  retryable :: bool
  shouldFallback :: bool
  message :: string

text \<open>
  \<^verbatim>\<open>interface RetryConfig\<close>. The classifier reads two of its fields, both optional
  (\<^verbatim>\<open>fallbackOnErrors?: ErrorCode[]\<close>, \<^verbatim>\<open>retryableErrors?: string[]\<close>); an absent
  field is \<open>None\<close>. The numeric fields (\<^verbatim>\<open>maxRetries\<close>, \<^verbatim>\<open>baseDelay\<close>, ...) and the
  nested configurations are never read by the classifier and live in the record's
  extension part.
\<close>

record RetryConfig =
  fallbackOnErrors :: "ErrorCode list option"
  retryableErrors :: "string list option"

text \<open>
  The value type of the static table, anonymous in the source:
  \<^verbatim>\<open>{ classification: ErrorClassification; retryable: boolean; shouldFallback: boolean }\<close>.
\<close>

record TaxonomyEntry =
  entry_classification :: ErrorClassification
  entry_retryable :: bool
  entry_shouldFallback :: bool

text \<open>
  The first parameter of \<^verbatim>\<open>classify(error: Error | ErrorCode | string, ...)\<close>, by the
  branch that the run-time tests select:
  \<^item> \<open>ErrorObject name message\<close>: \<^verbatim>\<open>error instanceof Error\<close>, with its two string fields;
  \<^item> \<open>StringValue s\<close>: \<^verbatim>\<open>typeof error === 'string'\<close>;
  \<^item> \<open>OtherValue c\<close>: the remaining \<^verbatim>\<open>else\<close> branch, which the source assigns to a
    variable of type \<^verbatim>\<open>ErrorCode\<close>.
\<close>

datatype ErrorInput =
    ErrorObject string string
  | StringValue string
  | OtherValue ErrorCode

text \<open>
  What a caller passes when it writes \<^verbatim>\<open>classify(ErrorCode.X)\<close>: the member's value, a
  primitive string, hence an input of the second kind.
\<close>

definition ofErrorCode :: "ErrorCode \<Rightarrow> ErrorInput" where
  "ofErrorCode c = StringValue (code_string c)"

section \<open>Strings\<close>

text \<open>
  \<^verbatim>\<open>String.prototype.toLowerCase\<close> on text in the ASCII range: the letters A to Z go to
  a to z, every other character is left as it is. Every fragment the classifier tests
  for is ASCII. Strings are lists of 8-bit characters here; JavaScript's strings also
  hold characters beyond that range, a few of which lower-case to an ASCII letter (the
  Kelvin sign U+212A to \<^verbatim>\<open>k\<close>), and messages with such characters are outside this
  model.
\<close>

definition toLowerCase_char :: "char \<Rightarrow> char" where
  "toLowerCase_char c =
     (let n = (of_char c :: nat) in if 65 \<le> n \<and> n \<le> 90 then char_of (n + 32) else c)"

definition toLowerCase :: "string \<Rightarrow> string" where
  "toLowerCase s = map toLowerCase_char s"

text \<open>
  \<^verbatim>\<open>s.includes(t)\<close>: \<open>t\<close> occurs in \<open>s\<close> as a contiguous run of characters, looked for
  from each position of \<open>s\<close> in turn.
\<close>

fun str_includes :: "string \<Rightarrow> string \<Rightarrow> bool" where
  "str_includes [] t = (t = [])"
| "str_includes (c # cs) t = (prefix t (c # cs) \<or> str_includes cs t)"

section \<open>The classifier (src/src/error-classifier.ts)\<close>

subsection \<open>The static table\<close>

definition ERROR_CLASSIFICATIONS :: "ErrorCode \<rightharpoonup> TaxonomyEntry" where
  "ERROR_CLASSIFICATIONS = map_of
    [(TIMEOUT,
        \<lparr>entry_classification = timeout, entry_retryable = True, entry_shouldFallback = True\<rparr>),
     (CONNECTION_ERROR,
        \<lparr>entry_classification = network, entry_retryable = True, entry_shouldFallback = True\<rparr>),
     (DNS_ERROR,
        \<lparr>entry_classification = network, entry_retryable = True, entry_shouldFallback = True\<rparr>),
     (AUTHENTICATION_ERROR,
        \<lparr>entry_classification = authentication, entry_retryable = False, entry_shouldFallback = False\<rparr>),
     (INVALID_API_KEY,
        \<lparr>entry_classification = authentication, entry_retryable = False, entry_shouldFallback = True\<rparr>),
     (PERMISSION_DENIED,
        \<lparr>entry_classification = authentication, entry_retryable = False, entry_shouldFallback = False\<rparr>),
     (RATE_LIMIT,
        \<lparr>entry_classification = rate_limit, entry_retryable = True, entry_shouldFallback = True\<rparr>),
     (QUOTA_EXCEEDED,
        \<lparr>entry_classification = rate_limit, entry_retryable = False, entry_shouldFallback = True\<rparr>),
     (MODEL_NOT_FOUND,
        \<lparr>entry_classification = model, entry_retryable = False, entry_shouldFallback = True\<rparr>),
     (MODEL_OVERLOADED,
        \<lparr>entry_classification = model, entry_retryable = True, entry_shouldFallback = True\<rparr>),
     (CONTEXT_LENGTH_EXCEEDED,
        \<lparr>entry_classification = model, entry_retryable = False, entry_shouldFallback = True\<rparr>),
     (INVALID_RESPONSE,
        \<lparr>entry_classification = quality, entry_retryable = True, entry_shouldFallback = True\<rparr>),
     (PARSE_ERROR,
        \<lparr>entry_classification = quality, entry_retryable = True, entry_shouldFallback = True\<rparr>),
     (EMPTY_RESPONSE,
        \<lparr>entry_classification = quality, entry_retryable = True, entry_shouldFallback = True\<rparr>),
     (QUALITY_THRESHOLD_NOT_MET,
        \<lparr>entry_classification = quality, entry_retryable = False, entry_shouldFallback = True\<rparr>),
     (LATENCY_TOO_HIGH,
        \<lparr>entry_classification = quality, entry_retryable = False, entry_shouldFallback = True\<rparr>),
     (INTERNAL_ERROR,
        \<lparr>entry_classification = system, entry_retryable = True, entry_shouldFallback = False\<rparr>),
     (SERVICE_UNAVAILABLE,
        \<lparr>entry_classification = system, entry_retryable = True, entry_shouldFallback = True\<rparr>),
     (UNKNOWN_ERROR,
        \<lparr>entry_classification = unknown, entry_retryable = False, entry_shouldFallback = False\<rparr>),
     (CUSTOM_ERROR,
        \<lparr>entry_classification = unknown, entry_retryable = False, entry_shouldFallback = False\<rparr>)]"

subsection \<open>Inference from an Error object\<close>

text \<open>
  \<^verbatim>\<open>extractErrorCode(error)\<close>, given \<^verbatim>\<open>error.name\<close> and \<^verbatim>\<open>error.message\<close>. Both are
  lower-cased first; the tests and their order are the source's, including the two
  upper-case fragments of the connection rule.
\<close>

definition extractErrorCode :: "string \<Rightarrow> string \<Rightarrow> ErrorCode" where
  "extractErrorCode error_name error_message =
    (let message = toLowerCase error_message;
         name = toLowerCase error_name
     in
     if str_includes message ''timeout'' \<or> str_includes name ''timeout'' then TIMEOUT
     else if str_includes message ''rate limit'' \<or> str_includes message ''rate_limit'' \<or>
             str_includes message ''too many requests'' then RATE_LIMIT
     else if str_includes message ''authentication'' \<or> str_includes message ''unauthorized'' \<or>
             str_includes message ''invalid api key'' \<or> str_includes message ''api key''
          then INVALID_API_KEY
     else if str_includes message ''quota'' \<or> str_includes message ''exceeded'' \<or>
             str_includes message ''insufficient credits'' then QUOTA_EXCEEDED
     else if str_includes message ''overloaded'' \<or> str_includes message ''model overloaded''
          then MODEL_OVERLOADED
     else if str_includes message ''context length'' \<or> str_includes message ''max tokens'' \<or>
             str_includes message ''token limit'' then CONTEXT_LENGTH_EXCEEDED
     else if str_includes message ''connection'' \<or> str_includes message ''network'' \<or>
             str_includes message ''ECONNREFUSED'' \<or> str_includes message ''ENOTFOUND''
          then CONNECTION_ERROR
     else if str_includes message ''503'' \<or> str_includes message ''service unavailable'' \<or>
             str_includes message ''unavailable'' then SERVICE_UNAVAILABLE
     else if str_includes message ''empty'' \<or> str_includes message ''no response''
          then EMPTY_RESPONSE
     else if str_includes message ''invalid response'' \<or> str_includes message ''parse''
          then INVALID_RESPONSE
     else if str_includes message ''permission'' \<or> str_includes message ''forbidden'' \<or>
             str_includes message ''403'' then PERMISSION_DENIED
     else if str_includes message ''model not found'' \<or> str_includes message ''404''
          then MODEL_NOT_FOUND
     else UNKNOWN_ERROR)"

subsection \<open>Inference from a string\<close>

definition determineErrorCodeFromMessage :: "string \<Rightarrow> ErrorCode" where
  "determineErrorCodeFromMessage msg =
    (let lowerMessage = toLowerCase msg
     in
     if str_includes lowerMessage ''timeout'' then TIMEOUT
     else if str_includes lowerMessage ''rate limit'' then RATE_LIMIT
     else if str_includes lowerMessage ''authentication'' \<or> str_includes lowerMessage ''api key''
          then INVALID_API_KEY
     else if str_includes lowerMessage ''quota'' then QUOTA_EXCEEDED
     else if str_includes lowerMessage ''overloaded'' then MODEL_OVERLOADED
     else if str_includes lowerMessage ''context length'' then CONTEXT_LENGTH_EXCEEDED
     else if str_includes lowerMessage ''connection'' then CONNECTION_ERROR
     else if str_includes lowerMessage ''unavailable'' then SERVICE_UNAVAILABLE
     else if str_includes lowerMessage ''empty'' then EMPTY_RESPONSE
     else if str_includes lowerMessage ''invalid response'' then INVALID_RESPONSE
     else if str_includes lowerMessage ''permission'' then PERMISSION_DENIED
     else if str_includes lowerMessage ''model not found'' then MODEL_NOT_FOUND
     else CUSTOM_ERROR)"

subsection \<open>classify\<close>

text \<open>
  The two configuration tests,
  \<^verbatim>\<open>this.config.fallbackOnErrors?.includes(errorCode) ?? false\<close> and
  \<^verbatim>\<open>this.config.retryableErrors?.includes(errorCode) ?? false\<close>. The second list holds
  strings, and the code is compared with them as the string it is.
\<close>

definition inFallbackOnErrors :: "RetryConfig \<Rightarrow> ErrorCode \<Rightarrow> bool" where
  "inFallbackOnErrors config errorCode =
     (case fallbackOnErrors config of None \<Rightarrow> False | Some l \<Rightarrow> List.member l errorCode)"

definition inRetryableErrors :: "RetryConfig \<Rightarrow> ErrorCode \<Rightarrow> bool" where
  "inRetryableErrors config errorCode =
     (case retryableErrors config of None \<Rightarrow> False
      | Some l \<Rightarrow> List.member l (code_string errorCode))"

text \<open>
  \<^verbatim>\<open>ERROR_CLASSIFICATIONS[errorCode] || { classification: 'unknown', retryable: false,
  shouldFallback: false }\<close>: a missing key reads as \<^verbatim>\<open>undefined\<close>, and the default object
  takes its place. The table is an argument of the lookup; \<open>classify\<close> below fixes it to
  the static table.
\<close>

definition baseClassification :: "(ErrorCode \<rightharpoonup> TaxonomyEntry) \<Rightarrow> ErrorCode \<Rightarrow> TaxonomyEntry" where
  "baseClassification table errorCode =
     (case table errorCode of
        Some entry \<Rightarrow> entry
      | None \<Rightarrow> \<lparr>entry_classification = unknown, entry_retryable = False,
                 entry_shouldFallback = False\<rparr>)"

text \<open>
  The first half of \<^verbatim>\<open>classify\<close>: the derived code and the message. In the third branch
  \<^verbatim>\<open>customMessage || error\<close> takes the code's string when the optional argument is absent
  or the empty string.
\<close>

fun normalize :: "ErrorInput \<Rightarrow> string option \<Rightarrow> ErrorCode \<times> string" where
  "normalize (ErrorObject error_name error_message) customMessage =
     (extractErrorCode error_name error_message, error_message)"
| "normalize (StringValue error) customMessage =
     (determineErrorCodeFromMessage error, error)"
| "normalize (OtherValue error) customMessage =
     (error, case customMessage of
               None \<Rightarrow> code_string error
             | Some m \<Rightarrow> if m = [] then code_string error else m)"

definition classify_with ::
  "(ErrorCode \<rightharpoonup> TaxonomyEntry) \<Rightarrow> RetryConfig \<Rightarrow> ErrorInput \<Rightarrow> string option \<Rightarrow> ClassifiedError" where
  "classify_with table config error customMessage =
    (let (errorCode, errorMessage) = normalize error customMessage;
         base = baseClassification table errorCode;
         fallback = (entry_shouldFallback base \<or> inFallbackOnErrors config errorCode);
         retry = (entry_retryable base \<or> inRetryableErrors config errorCode)
     in \<lparr>code = errorCode,
         classification = entry_classification base,
         retryable = retry,
         shouldFallback = fallback,
         message = errorMessage\<rparr>)"

definition classify :: "RetryConfig \<Rightarrow> ErrorInput \<Rightarrow> string option \<Rightarrow> ClassifiedError" where
  "classify config error customMessage =
     classify_with ERROR_CLASSIFICATIONS config error customMessage"

subsection \<open>The fragments the two cascades test\<close>

text \<open>
  The fragments that \<^verbatim>\<open>extractErrorCode\<close> looks for in the lower-cased message, in the
  order of the source, and those of \<^verbatim>\<open>determineErrorCodeFromMessage\<close>. A message matches a
  rule of a cascade when its lower-cased form includes one of the cascade's fragments.
\<close>

definition messageFragments :: "string list" where
  "messageFragments =
    [''timeout'', ''rate limit'', ''rate_limit'', ''too many requests'',
     ''authentication'', ''unauthorized'', ''invalid api key'', ''api key'',
     ''quota'', ''exceeded'', ''insufficient credits'',
     ''overloaded'', ''model overloaded'',
     ''context length'', ''max tokens'', ''token limit'',
     ''connection'', ''network'', ''ECONNREFUSED'', ''ENOTFOUND'',
     ''503'', ''service unavailable'', ''unavailable'',
     ''empty'', ''no response'',
     ''invalid response'', ''parse'',
     ''permission'', ''forbidden'', ''403'',
     ''model not found'', ''404'']"

definition stringFragments :: "string list" where
  "stringFragments =
    [''timeout'', ''rate limit'', ''authentication'', ''api key'', ''quota'', ''overloaded'',
     ''context length'', ''connection'', ''unavailable'', ''empty'', ''invalid response'',
     ''permission'', ''model not found'']"

definition matchesAny :: "string list \<Rightarrow> string \<Rightarrow> bool" where
  "matchesAny fragments s = list_ex (str_includes (toLowerCase s)) fragments"

subsection \<open>Two configurations without overrides\<close>

text \<open>
  A configuration that leaves both optional lists out (as the one in the README does),
  and one that gives both as empty arrays.
\<close>

definition noOverrides :: RetryConfig where
  "noOverrides = \<lparr>fallbackOnErrors = None, retryableErrors = None\<rparr>"

definition emptyOverrides :: RetryConfig where
  "emptyOverrides = \<lparr>fallbackOnErrors = Some [], retryableErrors = Some []\<rparr>"

text \<open>A configuration that widens both decisions for \<open>AUTHENTICATION_ERROR\<close>.\<close>

definition widened :: RetryConfig where
  "widened = \<lparr>fallbackOnErrors = Some [AUTHENTICATION_ERROR],
              retryableErrors = Some [''AUTHENTICATION_ERROR'']\<rparr>"

section \<open>The classifier on run-time values\<close>

text \<open>
  TypeScript's types are erased at run time, and \<^verbatim>\<open>classify\<close> then meets values of any
  kind. \<^verbatim>\<open>classify\<close> has no \<^verbatim>\<open>throw\<close> of its own; what can end a call is a
  \<^verbatim>\<open>TypeError\<close> of the language, raised when a method is called on a value that does not
  have it. This section writes \<^verbatim>\<open>classify\<close> once more, over run-time values and with
  that error as a result, so that not raising can be stated.

  The values: strings, and of the other primitives \<^verbatim>\<open>undefined\<close>, \<^verbatim>\<open>null\<close> and the
  booleans. An input is an instance of \<^verbatim>\<open>Error\<close>, with the values of its \<^verbatim>\<open>name\<close> and
  \<^verbatim>\<open>message\<close> properties, or a primitive. Numbers, symbols and objects that are not
  Error instances are left out. The configuration and \<^verbatim>\<open>customMessage\<close> keep their
  declared types.
\<close>

datatype NonString = JsUndefined | JsNull | JsBoolean bool

datatype JsValue = JsString string | JsOther NonString

datatype RuntimeInput = ErrorInstance JsValue JsValue | Primitive JsValue

datatype Thrown = TypeError

text \<open>
  What the variable \<^verbatim>\<open>errorCode\<close> holds at run time: a member of the enum, returned by
  one of the two inference functions, or, after the \<^verbatim>\<open>else\<close> branch, the input itself,
  which is not a string there.
\<close>

datatype RuntimeCode = Member ErrorCode | NonMember NonString

record RuntimeClassified =
  rt_code :: RuntimeCode
  rt_classification :: ErrorClassification
  rt_retryable :: bool
  rt_shouldFallback :: bool
  rt_message :: JsValue

text \<open>
  \<^verbatim>\<open>extractErrorCode\<close> begins with \<^verbatim>\<open>error.message.toLowerCase()\<close> and
  \<^verbatim>\<open>error.name.toLowerCase()\<close>. On \<^verbatim>\<open>undefined\<close> and \<^verbatim>\<open>null\<close> the property access
  raises a \<^verbatim>\<open>TypeError\<close>, on a boolean the call does (it has no such method). With two
  strings the function goes on as \<open>extractErrorCode\<close> above.
\<close>

definition rt_extractErrorCode :: "JsValue \<Rightarrow> JsValue \<Rightarrow> Thrown + ErrorCode" where
  "rt_extractErrorCode error_name error_message =
     (case error_message of
        JsOther u \<Rightarrow> Inl TypeError
      | JsString m \<Rightarrow>
          (case error_name of
             JsOther u \<Rightarrow> Inl TypeError
           | JsString n \<Rightarrow> Inr (extractErrorCode n m)))"

text \<open>
  \<^verbatim>\<open>ERROR_CLASSIFICATIONS[errorCode]\<close> converts \<^verbatim>\<open>errorCode\<close> to a property key, a
  string, and reads the property of that name: the table's entry when the key is the name
  of a member, \<^verbatim>\<open>undefined\<close> otherwise (the properties that the table object inherits
  have other names than the four keys of the non-string values).
\<close>

fun propertyKey :: "RuntimeCode \<Rightarrow> string" where
  "propertyKey (Member c) = code_string c"
| "propertyKey (NonMember JsUndefined) = ''undefined''"
| "propertyKey (NonMember JsNull) = ''null''"
| "propertyKey (NonMember (JsBoolean b)) = (if b then ''true'' else ''false'')"

definition allErrorCodes :: "ErrorCode list" where
  "allErrorCodes =
    [TIMEOUT, CONNECTION_ERROR, DNS_ERROR, AUTHENTICATION_ERROR, INVALID_API_KEY,
     PERMISSION_DENIED, RATE_LIMIT, QUOTA_EXCEEDED, MODEL_NOT_FOUND, MODEL_OVERLOADED,
     CONTEXT_LENGTH_EXCEEDED, INVALID_RESPONSE, PARSE_ERROR, EMPTY_RESPONSE,
     QUALITY_THRESHOLD_NOT_MET, LATENCY_TOO_HIGH, INTERNAL_ERROR, SERVICE_UNAVAILABLE,
     UNKNOWN_ERROR, CUSTOM_ERROR]"

definition rt_lookup :: "RuntimeCode \<Rightarrow> TaxonomyEntry option" where
  "rt_lookup errorCode =
     (case List.find (\<lambda>c. code_string c = propertyKey errorCode) allErrorCodes of
        Some c \<Rightarrow> ERROR_CLASSIFICATIONS c
      | None \<Rightarrow> None)"

text \<open>
  \<^verbatim>\<open>Array.prototype.includes\<close> compares by value and type: an array of strings includes
  none of the non-string values.
\<close>

definition rt_inFallbackOnErrors :: "RetryConfig \<Rightarrow> RuntimeCode \<Rightarrow> bool" where
  "rt_inFallbackOnErrors config errorCode =
     (case errorCode of Member c \<Rightarrow> inFallbackOnErrors config c | NonMember v \<Rightarrow> False)"

definition rt_inRetryableErrors :: "RetryConfig \<Rightarrow> RuntimeCode \<Rightarrow> bool" where
  "rt_inRetryableErrors config errorCode =
     (case errorCode of Member c \<Rightarrow> inRetryableErrors config c | NonMember v \<Rightarrow> False)"

text \<open>
  The three branches of \<^verbatim>\<open>classify\<close>: \<^verbatim>\<open>error instanceof Error\<close>,
  \<^verbatim>\<open>typeof error === 'string'\<close>, and the \<^verbatim>\<open>else\<close> branch, which takes every other
  value, keeps it as the code, and as the message when \<^verbatim>\<open>customMessage\<close> is absent or
  empty.
\<close>

fun rt_normalize :: "RuntimeInput \<Rightarrow> string option \<Rightarrow> Thrown + RuntimeCode \<times> JsValue" where
  "rt_normalize (ErrorInstance error_name error_message) customMessage =
     (case rt_extractErrorCode error_name error_message of
        Inl t \<Rightarrow> Inl t
      | Inr c \<Rightarrow> Inr (Member c, error_message))"
| "rt_normalize (Primitive (JsString error)) customMessage =
     Inr (Member (determineErrorCodeFromMessage error), JsString error)"
| "rt_normalize (Primitive (JsOther error)) customMessage =
     Inr (NonMember error,
          case customMessage of
            None \<Rightarrow> JsOther error
          | Some m \<Rightarrow> if m = [] then JsOther error else JsString m)"

definition classify_runtime ::
  "RetryConfig \<Rightarrow> RuntimeInput \<Rightarrow> string option \<Rightarrow> Thrown + RuntimeClassified" where
  "classify_runtime config error customMessage =
    (case rt_normalize error customMessage of
       Inl t \<Rightarrow> Inl t
     | Inr (errorCode, errorMessage) \<Rightarrow>
         (let base = (case rt_lookup errorCode of
                        Some entry \<Rightarrow> entry
                      | None \<Rightarrow> \<lparr>entry_classification = unknown, entry_retryable = False,
                                  entry_shouldFallback = False\<rparr>);
              fallback = (entry_shouldFallback base \<or> rt_inFallbackOnErrors config errorCode);
              retry = (entry_retryable base \<or> rt_inRetryableErrors config errorCode)
          in Inr \<lparr>rt_code = errorCode,
                  rt_classification = entry_classification base,
                  rt_retryable = retry,
                  rt_shouldFallback = fallback,
                  rt_message = errorMessage\<rparr>))"

text \<open>A result of \<open>classify\<close>, as the run-time value it is.\<close>

definition ofClassified :: "ClassifiedError \<Rightarrow> RuntimeClassified" where
  "ofClassified r =
     \<lparr>rt_code = Member (code r), rt_classification = classification r,
      rt_retryable = retryable r, rt_shouldFallback = shouldFallback r,
      rt_message = JsString (message r)\<rparr>"

section \<open>Basic facts\<close>

lemma str_includes_iff_sublist: "str_includes s t \<longleftrightarrow> sublist t s"
  by (induction s) (auto simp: sublist_Cons_right)

lemma toLowerCase_sublist: "sublist t s \<Longrightarrow> sublist (toLowerCase t) (toLowerCase s)"
  unfolding toLowerCase_def by (rule map_mono_sublist)

text \<open>Each field of the result, read off the body of \<^verbatim>\<open>classify\<close>.\<close>

lemma classify_with_fields:
  "code (classify_with table config error customMessage) = fst (normalize error customMessage)"
  "message (classify_with table config error customMessage) = snd (normalize error customMessage)"
  "classification (classify_with table config error customMessage) =
     entry_classification (baseClassification table (fst (normalize error customMessage)))"
  "retryable (classify_with table config error customMessage) =
     (entry_retryable (baseClassification table (fst (normalize error customMessage))) \<or>
      inRetryableErrors config (fst (normalize error customMessage)))"
  "shouldFallback (classify_with table config error customMessage) =
     (entry_shouldFallback (baseClassification table (fst (normalize error customMessage))) \<or>
      inFallbackOnErrors config (fst (normalize error customMessage)))"
  by (simp_all add: classify_with_def split_beta Let_def)

lemmas classify_fields =
  classify_with_fields [where table = ERROR_CLASSIFICATIONS, folded classify_def]

text \<open>The static table has an entry for each of the twenty codes.\<close>

lemma table_total: "ERROR_CLASSIFICATIONS c \<noteq> None"
  by (cases c; simp add: ERROR_CLASSIFICATIONS_def)

section \<open>Classifying an error code\<close>

text \<open>
  The \<^verbatim>\<open>else\<close> branch of \<^verbatim>\<open>classify\<close> is the one written for codes: it keeps the code
  and reads its entry from the table.
\<close>

lemma OtherValue_direct:
  "code (classify config (OtherValue c) customMessage) = c \<and>
   Some (classification (classify config (OtherValue c) customMessage)) =
     map_option entry_classification (ERROR_CLASSIFICATIONS c)"
  using table_total [of c]
  by (auto simp: classify_fields baseClassification_def)

text \<open>
  A code passed by a caller is a string, though, and is taken by the branch before it:
  it goes through \<^verbatim>\<open>determineErrorCodeFromMessage\<close> as free text. Eight of the twenty
  codes come back as themselves, because their own name contains a fragment of their
  own rule; the other twelve do not.
\<close>

lemma ofErrorCode_survivors:
  "code (classify config (ofErrorCode c) customMessage) = c \<longleftrightarrow>
     c \<in> {TIMEOUT, CONNECTION_ERROR, PERMISSION_DENIED, QUOTA_EXCEEDED, MODEL_OVERLOADED,
          EMPTY_RESPONSE, SERVICE_UNAVAILABLE, CUSTOM_ERROR}"
  by (cases c; hypsubst_thin; code_simp)

text \<open>
  C1. The claim: for every code, \<^verbatim>\<open>classify(code)\<close> returns that code with the table's
  classification. The code at \<^verbatim>\<open>ErrorCode.DNS_ERROR\<close>: the string \<^verbatim>\<open>'DNS_ERROR'\<close> matches
  no fragment, so the result has code \<open>CUSTOM_ERROR\<close> and classification \<open>unknown\<close>,
  where the table gives \<open>network\<close> for \<open>DNS_ERROR\<close>.
\<close>

theorem classify_code_DNS_ERROR:
  "code (classify config (ofErrorCode DNS_ERROR) customMessage) = CUSTOM_ERROR \<and>
   classification (classify config (ofErrorCode DNS_ERROR) customMessage) = unknown \<and>
   map_option entry_classification (ERROR_CLASSIFICATIONS DNS_ERROR) = Some network"
  by code_simp

text \<open>
  C2. The claim: without overrides, \<^verbatim>\<open>classify(ErrorCode.AUTHENTICATION_ERROR)\<close> is neither
  retryable nor a reason to fall back. The code: the string \<^verbatim>\<open>'AUTHENTICATION_ERROR'\<close>,
  lower-cased, includes \<^verbatim>\<open>'authentication'\<close>, so the derived code is \<open>INVALID_API_KEY\<close>,
  whose entry has \<open>shouldFallback = True\<close>.
\<close>

theorem classify_AUTHENTICATION_ERROR_empty_config:
  "classify noOverrides (ofErrorCode AUTHENTICATION_ERROR) None =
     \<lparr>code = INVALID_API_KEY, classification = authentication, retryable = False,
      shouldFallback = True, message = ''AUTHENTICATION_ERROR''\<rparr> \<and>
   classify emptyOverrides (ofErrorCode AUTHENTICATION_ERROR) None =
     \<lparr>code = INVALID_API_KEY, classification = authentication, retryable = False,
      shouldFallback = True, message = ''AUTHENTICATION_ERROR''\<rparr>"
  by code_simp

text \<open>
  C3. The claim: classifying the code of a result again gives the same classification,
  retryable and shouldFallback. The code at the string \<^verbatim>\<open>'invalid api key'\<close>: the first
  call derives \<open>INVALID_API_KEY\<close> (authentication, fall back); the second call receives
  the string \<^verbatim>\<open>'INVALID_API_KEY'\<close>, which matches no fragment, and returns \<open>CUSTOM_ERROR\<close>
  (unknown, no fall back).
\<close>

theorem reclassify_invalid_api_key:
  "classify noOverrides (StringValue ''invalid api key'') None =
     \<lparr>code = INVALID_API_KEY, classification = authentication, retryable = False,
      shouldFallback = True, message = ''invalid api key''\<rparr> \<and>
   classify noOverrides
       (ofErrorCode (code (classify noOverrides (StringValue ''invalid api key'') None))) None =
     \<lparr>code = CUSTOM_ERROR, classification = unknown, retryable = False,
      shouldFallback = False, message = ''INVALID_API_KEY''\<rparr>"
  by code_simp

section \<open>Classifying an Error object\<close>

text \<open>
  A lower-cased string holds no upper-case \<^verbatim>\<open>E\<close>, so the two upper-case fragments of the
  connection rule match no message at all.
\<close>

lemma toLowerCase_char_not_E: "toLowerCase_char c \<noteq> CHR ''E''"
proof
  assume a: "toLowerCase_char c = CHR ''E''"
  let ?n = "of_char c :: nat"
  show False
  proof (cases "65 \<le> ?n \<and> ?n \<le> 90")
    case True
    then have "toLowerCase_char c = char_of (?n + 32)" by (simp add: toLowerCase_char_def)
    then have "of_char (toLowerCase_char c) = ((?n + 32) mod 256 :: nat)" by (simp add: of_char_of)
    with True have "(of_char (toLowerCase_char c) :: nat) = ?n + 32" by simp
    with a True show False by simp
  next
    case False
    then have "toLowerCase_char c = c" by (auto simp: toLowerCase_char_def)
    with a False show False by simp
  qed
qed

lemma upper_fragment_never_matches:
  "\<not> str_includes (toLowerCase s) ''ECONNREFUSED''"
  "\<not> str_includes (toLowerCase s) ''ENOTFOUND''"
proof -
  have E: "CHR ''E'' \<notin> set (toLowerCase s)"
    by (auto simp: toLowerCase_def toLowerCase_char_not_E [THEN not_sym])
  { fix t assume "CHR ''E'' \<in> set t" "str_includes (toLowerCase s) t"
    then have False using E set_mono_sublist [of t "toLowerCase s"]
      by (auto simp: str_includes_iff_sublist) }
  then show "\<not> str_includes (toLowerCase s) ''ECONNREFUSED''"
    "\<not> str_includes (toLowerCase s) ''ENOTFOUND''"
    by fastforce+
qed

text \<open>
  C4. The claim: an Error whose message is \<^verbatim>\<open>"ECONNREFUSED"\<close> gets code
  \<open>CONNECTION_ERROR\<close> and classification \<open>network\<close>. The code: the message is lower-cased
  to \<^verbatim>\<open>'econnrefused'\<close> before the tests, and the connection rule looks for the upper-case
  fragment \<^verbatim>\<open>'ECONNREFUSED'\<close> in it; no rule matches, and the result is \<open>UNKNOWN_ERROR\<close>
  with classification \<open>unknown\<close>.
\<close>

theorem classify_ECONNREFUSED:
  "code (classify config (ErrorObject ''Error'' ''ECONNREFUSED'') customMessage) = UNKNOWN_ERROR \<and>
   classification (classify config (ErrorObject ''Error'' ''ECONNREFUSED'') customMessage) = unknown"
  by code_simp

section \<open>Precedence and defaults of the two cascades\<close>

lemma includes_lowered:
  assumes "sublist t s" and "toLowerCase t = t"
  shows "str_includes (toLowerCase s) t"
  using toLowerCase_sublist [OF assms(1)] assms(2) by (simp add: str_includes_iff_sublist)

lemma lower_timeout: "toLowerCase ''timeout'' = ''timeout''"
  by code_simp

lemma timeout_first:
  assumes "sublist ''timeout'' m"
  shows "determineErrorCodeFromMessage m = TIMEOUT" and "extractErrorCode n m = TIMEOUT"
  using includes_lowered [OF assms lower_timeout]
  by (simp_all add: determineErrorCodeFromMessage_def extractErrorCode_def)

text \<open>
  C6. A message that contains both \<^verbatim>\<open>timeout\<close> and \<^verbatim>\<open>rate limit\<close> gets the code \<open>TIMEOUT\<close>,
  as a string input and as the message of an Error object (whatever its name): the
  timeout test is the first of both cascades, and lower-casing keeps a lower-case
  fragment in place.
\<close>

theorem first_match_precedence:
  assumes "sublist ''timeout'' m" and "sublist ''rate limit'' m"
  shows "code (classify config (StringValue m) customMessage) = TIMEOUT \<and>
         code (classify config (ErrorObject n m) customMessage) = TIMEOUT"
  using timeout_first [OF assms(1)] by (simp add: classify_fields)

theorem first_match_precedence_witness:
  "sublist ''timeout'' ''rate limit reached, then timeout'' \<and>
   sublist ''rate limit'' ''rate limit reached, then timeout'' \<and>
   code (classify noOverrides (StringValue ''rate limit reached, then timeout'') None) = TIMEOUT \<and>
   code (classify noOverrides (ErrorObject ''Error'' ''rate limit reached, then timeout'') None) = TIMEOUT"
proof -
  have h1: "sublist ''timeout'' ''rate limit reached, then timeout''" by code_simp
  have h2: "sublist ''rate limit'' ''rate limit reached, then timeout''" by code_simp
  from first_match_precedence [OF h1 h2] h1 h2 show ?thesis by blast
qed

text \<open>
  C7, as the code has it. A string whose lower-cased form includes none of the fragments
  of \<^verbatim>\<open>determineErrorCodeFromMessage\<close> gets \<open>CUSTOM_ERROR\<close>. An Error object whose
  lower-cased message includes none of the fragments of \<^verbatim>\<open>extractErrorCode\<close> gets
  \<open>UNKNOWN_ERROR\<close>, provided that its lower-cased name does not include \<^verbatim>\<open>timeout\<close>: the
  first rule of that cascade also reads the name.
\<close>

theorem default_divergence:
  "(\<not> matchesAny stringFragments s \<longrightarrow>
      code (classify config (StringValue s) customMessage) = CUSTOM_ERROR) \<and>
   (\<not> matchesAny messageFragments m \<and> \<not> str_includes (toLowerCase n) ''timeout'' \<longrightarrow>
      code (classify config (ErrorObject n m) customMessage) = UNKNOWN_ERROR)"
  by (simp add: classify_fields matchesAny_def stringFragments_def messageFragments_def
        determineErrorCodeFromMessage_def extractErrorCode_def)

theorem default_divergence_witness:
  "\<not> matchesAny stringFragments ''some completely novel phrase'' \<and>
   code (classify noOverrides (StringValue ''some completely novel phrase'') None) = CUSTOM_ERROR \<and>
   \<not> matchesAny messageFragments ''some completely novel phrase'' \<and>
   \<not> str_includes (toLowerCase ''Error'') ''timeout'' \<and>
   code (classify noOverrides (ErrorObject ''Error'' ''some completely novel phrase'') None)
     = UNKNOWN_ERROR"
proof -
  have h1: "\<not> matchesAny stringFragments ''some completely novel phrase''" by code_simp
  have h2: "\<not> matchesAny messageFragments ''some completely novel phrase''" by code_simp
  have h3: "\<not> str_includes (toLowerCase ''Error'') ''timeout''" by code_simp
  from default_divergence [of "''some completely novel phrase''" noOverrides None
         "''some completely novel phrase''" "''Error''"] h1 h2 h3
  show ?thesis by blast
qed

text \<open>
  C7, as it is worded (an Error object whose message matches no rule gets
  \<open>UNKNOWN_ERROR\<close>), fails for an Error named \<^verbatim>\<open>TimeoutError\<close> with the message \<^verbatim>\<open>boom\<close>:
  the message matches no fragment, and the name makes the code \<open>TIMEOUT\<close>.
\<close>

theorem unmatched_message_TimeoutError:
  "\<not> matchesAny messageFragments ''boom'' \<and>
   code (classify noOverrides (ErrorObject ''TimeoutError'' ''boom'') None) = TIMEOUT \<and>
   code (classify noOverrides (ErrorObject ''TimeoutError'' ''boom'') None) \<noteq> UNKNOWN_ERROR"
  by code_simp

section \<open>Overrides\<close>

text \<open>
  C5. Overrides only widen: whenever the table entry of the derived code is retryable, so
  is the result, and likewise for shouldFallback; and the classification and the message
  of the result are the same under any other configuration.
\<close>

theorem override_monotone:
  "(entry_retryable (baseClassification ERROR_CLASSIFICATIONS
        (code (classify config error customMessage))) \<longrightarrow>
      retryable (classify config error customMessage)) \<and>
   (entry_shouldFallback (baseClassification ERROR_CLASSIFICATIONS
        (code (classify config error customMessage))) \<longrightarrow>
      shouldFallback (classify config error customMessage)) \<and>
   classification (classify config error customMessage) =
     classification (classify config' error customMessage) \<and>
   message (classify config error customMessage) =
     message (classify config' error customMessage)"
  by (simp add: classify_fields)

theorem override_monotone_witness:
  "entry_retryable (baseClassification ERROR_CLASSIFICATIONS
      (code (classify widened (StringValue ''Request failed: rate limit exceeded'') None))) \<and>
   retryable (classify widened (StringValue ''Request failed: rate limit exceeded'') None) \<and>
   entry_shouldFallback (baseClassification ERROR_CLASSIFICATIONS
      (code (classify widened (StringValue ''Request failed: rate limit exceeded'') None))) \<and>
   shouldFallback (classify widened (StringValue ''Request failed: rate limit exceeded'') None)"
proof -
  have c: "code (classify widened (StringValue ''Request failed: rate limit exceeded'') None)
             = RATE_LIMIT"
    by code_simp
  have r: "entry_retryable (baseClassification ERROR_CLASSIFICATIONS RATE_LIMIT)"
    and f: "entry_shouldFallback (baseClassification ERROR_CLASSIFICATIONS RATE_LIMIT)"
    by code_simp+
  from override_monotone
         [of widened "StringValue ''Request failed: rate limit exceeded''" None widened]
       c r f
  show ?thesis by simp
qed

text \<open>
  C9. Two runs of \<^verbatim>\<open>classify\<close> on the same input under any two configurations return the
  same code, classification and message.
\<close>

theorem config_noninterference:
  "code (classify config1 error customMessage) = code (classify config2 error customMessage) \<and>
   classification (classify config1 error customMessage) =
     classification (classify config2 error customMessage) \<and>
   message (classify config1 error customMessage) =
     message (classify config2 error customMessage)"
  by (simp add: classify_fields)

section \<open>Totality and the default entry\<close>

text \<open>
  The lookup finds the table's entry for a member of the enum, and nothing for a value
  that is not a string; so it misses exactly when the code is not a member.
\<close>

lemma rt_lookup_Member: "rt_lookup (Member c) = ERROR_CLASSIFICATIONS c"
  by (cases c; hypsubst_thin; code_simp)

lemma rt_lookup_NonMember: "rt_lookup (NonMember v) = None"
proof -
  have closed:
    "rt_lookup (NonMember JsUndefined) = None"
    "rt_lookup (NonMember JsNull) = None"
    "rt_lookup (NonMember (JsBoolean True)) = None"
    "rt_lookup (NonMember (JsBoolean False)) = None"
    by code_simp+
  show ?thesis
  proof (cases v)
    case (JsBoolean b)
    with closed show ?thesis by (cases b) simp_all
  qed (simp_all add: closed)
qed

lemma rt_lookup_None_iff: "rt_lookup errorCode = None \<longleftrightarrow> (\<exists>v. errorCode = NonMember v)"
  by (cases errorCode) (simp_all add: rt_lookup_Member rt_lookup_NonMember table_total)

lemma rt_extractErrorCode_strings:
  "rt_extractErrorCode (JsString n) (JsString m) = Inr (extractErrorCode n m)"
  by (simp add: rt_extractErrorCode_def)

text \<open>
  The error result is not idle: an Error instance whose \<^verbatim>\<open>message\<close> or \<^verbatim>\<open>name\<close> is not
  a string, which the declared type \<^verbatim>\<open>Error\<close> excludes, makes the call raise.
\<close>

lemma classify_runtime_throws:
  "classify_runtime config (ErrorInstance error_name (JsOther v)) customMessage = Inl TypeError"
  "classify_runtime config (ErrorInstance (JsOther v) error_message) customMessage = Inl TypeError"
  by (cases error_message; simp add: classify_runtime_def rt_extractErrorCode_def)+

text \<open>
  C8. On each of the three accepted shapes, an Error instance with a string name and a
  string message, a string, and a member of the enum (a string too), the call does not
  raise: it returns, and what it returns is the result of \<open>classify\<close>. And whenever the
  derived code has no entry in the table, the call returns as well, with classification
  \<open>unknown\<close>; the base entry being not retryable and no reason to fall back, the two
  decisions of the result are what the configuration's lists say of that code.
\<close>

theorem classify_never_raises:
  "classify_runtime config (ErrorInstance (JsString n) (JsString m)) customMessage =
     Inr (ofClassified (classify config (ErrorObject n m) customMessage)) \<and>
   classify_runtime config (Primitive (JsString s)) customMessage =
     Inr (ofClassified (classify config (StringValue s) customMessage)) \<and>
   classify_runtime config (Primitive (JsString (code_string c))) customMessage =
     Inr (ofClassified (classify config (ofErrorCode c) customMessage)) \<and>
   (rt_normalize error customMessage = Inr (errorCode, errorMessage) \<and>
    rt_lookup errorCode = None \<longrightarrow>
      classify_runtime config error customMessage =
        Inr \<lparr>rt_code = errorCode, rt_classification = unknown,
             rt_retryable = rt_inRetryableErrors config errorCode,
             rt_shouldFallback = rt_inFallbackOnErrors config errorCode,
             rt_message = errorMessage\<rparr>)"
  by (simp add: classify_runtime_def rt_extractErrorCode_strings rt_lookup_Member
        classify_def classify_with_def baseClassification_def ofClassified_def ofErrorCode_def
        rt_inRetryableErrors_def rt_inFallbackOnErrors_def Let_def)

text \<open>
  The call \<^verbatim>\<open>classify(undefined)\<close>, under a configuration with both lists given: the
  \<^verbatim>\<open>else\<close> branch keeps \<^verbatim>\<open>undefined\<close> as the code, the table has no property of that
  name, and the result is the default, with neither decision widened.
\<close>

theorem classify_never_raises_witness:
  "rt_normalize (Primitive (JsOther JsUndefined)) None
     = Inr (NonMember JsUndefined, JsOther JsUndefined) \<and>
   rt_lookup (NonMember JsUndefined) = None \<and>
   classify_runtime widened (Primitive (JsOther JsUndefined)) None =
     Inr \<lparr>rt_code = NonMember JsUndefined, rt_classification = unknown,
          rt_retryable = False, rt_shouldFallback = False,
          rt_message = JsOther JsUndefined\<rparr>"
proof -
  have h1: "rt_normalize (Primitive (JsOther JsUndefined)) None
              = Inr (NonMember JsUndefined, JsOther JsUndefined)"
    by simp
  have h2: "rt_lookup (NonMember JsUndefined) = None"
    by code_simp
  have o: "rt_inRetryableErrors widened (NonMember JsUndefined) = False"
          "rt_inFallbackOnErrors widened (NonMember JsUndefined) = False"
    by (simp_all add: rt_inRetryableErrors_def rt_inFallbackOnErrors_def)
  from classify_never_raises
         [of widened _ _ None _ _ "Primitive (JsOther JsUndefined)" "NonMember JsUndefined"
             "JsOther JsUndefined"]
       h1 h2 o
  show ?thesis by simp
qed

section \<open>The message of the result\<close>

text \<open>
  C10. For a string input the message of the result is the input string, whatever the
  optional \<^verbatim>\<open>customMessage\<close> is; the same holds for an Error object and its own message,
  and for both the whole result is the one obtained without \<^verbatim>\<open>customMessage\<close>. Only the
  \<^verbatim>\<open>else\<close> branch reads it: there a non-empty \<^verbatim>\<open>customMessage\<close> is the message of the
  result.
\<close>

theorem string_input_ignores_customMessage:
  "message (classify config (StringValue s) customMessage) = s \<and>
   message (classify config (ErrorObject n m) customMessage) = m \<and>
   classify config (StringValue s) customMessage = classify config (StringValue s) None \<and>
   classify config (ErrorObject n m) customMessage = classify config (ErrorObject n m) None \<and>
   message (classify config (OtherValue c) (Some (x # xs))) = x # xs"
  by (simp add: classify_def classify_with_def Let_def)

end
